theory Spec2Isabelle
  imports
    Complex_Main
    "HOL-Library.Multiset"
    "HOL-Library.Char_ord"
    "HOL-Library.List_Lexorder"
    "HOL-Library.Product_Lexorder"
begin

section \<open>JavaScript numbers\<close>

text \<open>
  A JavaScript \<^verbatim>\<open>number\<close> is an IEEE 754 double: a finite value, one of the two
  infinities, or NaN. A finite double is kept as the real number it stands for, so
  \<open>Fin r\<close> is a number of the program when \<open>r\<close> is representable (\<open>to_double r = Fin r\<close>
  below). The negative zero is identified with zero: the code below never divides and
  never prints a sign of zero. An optional field or parameter (\<^verbatim>\<open>x?: number\<close>) is a
  \<open>number option\<close>, with \<open>None\<close> for \<^verbatim>\<open>undefined\<close>.
\<close>

datatype number = NaN | NegInf | Fin real | PosInf

text \<open>\<^verbatim>\<open>ToBoolean\<close> on a number: false for 0 and NaN, true otherwise.\<close>

fun truthy_num :: "number \<Rightarrow> bool" where
  "truthy_num NaN = False"
| "truthy_num (Fin r) = (r \<noteq> 0)"
| "truthy_num NegInf = True"
| "truthy_num PosInf = True"

text \<open>\<^verbatim>\<open>ToBoolean\<close> on an optional number: \<^verbatim>\<open>undefined\<close> is false.\<close>

fun truthy :: "number option \<Rightarrow> bool" where
  "truthy None = False"
| "truthy (Some n) = truthy_num n"

text \<open>\<^verbatim>\<open>v || d\<close>: the left operand when it is truthy, the right one otherwise.\<close>

fun or_else :: "number option \<Rightarrow> number \<Rightarrow> number" where
  "or_else None d = d"
| "or_else (Some n) d = (if truthy_num n then n else d)"

text \<open>\<^verbatim>\<open>v ?? d\<close>: the left operand unless it is \<^verbatim>\<open>undefined\<close>.\<close>

fun nullish :: "number option \<Rightarrow> number \<Rightarrow> number" where
  "nullish None d = d"
| "nullish (Some n) d = n"

text \<open>
  Rounding of a real to the nearest double, ties to the even significand, as every
  arithmetic operation and every numeric literal of the language does it. The number
  of binary digits of a positive integer:
\<close>

function bit_length :: "int \<Rightarrow> int" where
  "bit_length n = (if n \<le> 0 then 0 else 1 + bit_length (n div 2))"
  by pat_completeness auto
termination
  by (relation "measure nat") auto

declare bit_length.simps [simp del]

text \<open>The exponent \<open>k\<close> with \<open>2 ^ k \<le> a < 2 ^ (k + 1)\<close>, for a positive \<open>a\<close>.\<close>

definition binade :: "real \<Rightarrow> int" where
  "binade a =
     (if 1 \<le> a then bit_length \<lfloor>a\<rfloor> - 1 else - bit_length (\<lceil>1 / a\<rceil> - 1))"

definition pow2 :: "int \<Rightarrow> real" where
  "pow2 e = (if 0 \<le> e then 2 ^ nat e else 1 / 2 ^ nat (- e))"

text \<open>The nearest integer, the even one of two that are equally near.\<close>

definition round_even :: "real \<Rightarrow> int" where
  "round_even q =
     (let f = \<lfloor>q\<rfloor>; d = q - of_int f
      in if d < 1 / 2 then f else if 1 / 2 < d then f + 1 else if even f then f else f + 1)"

text \<open>
  A double has 53 significant binary digits, so the spacing of the doubles around \<open>r\<close>
  is \<open>2 ^ (binade \<bar>r\<bar> - 52)\<close>, and never less than \<open>2 ^ - 1074\<close> (the subnormal
  range). The real is rounded to a multiple of that spacing; a result of magnitude
  \<open>2 ^ 1024\<close> or more is an infinity.
\<close>

definition to_double :: "real \<Rightarrow> number" where
  "to_double r =
     (if r = 0 then Fin 0
      else (let e = max (binade \<bar>r\<bar> - 52) (- 1074);
                v = of_int (round_even (r / pow2 e)) * pow2 e
            in if 2 ^ 1024 \<le> v then PosInf
               else if v \<le> - (2 ^ 1024) then NegInf
               else Fin v))"

text \<open>Negation and absolute value are exact; sum and difference are rounded.\<close>

fun num_neg :: "number \<Rightarrow> number" where
  "num_neg NaN = NaN"
| "num_neg NegInf = PosInf"
| "num_neg PosInf = NegInf"
| "num_neg (Fin r) = Fin (- r)"

fun num_add :: "number \<Rightarrow> number \<Rightarrow> number" where
  "num_add (Fin a) (Fin b) = to_double (a + b)"
| "num_add NaN _ = NaN"
| "num_add _ NaN = NaN"
| "num_add PosInf NegInf = NaN"
| "num_add NegInf PosInf = NaN"
| "num_add PosInf _ = PosInf"
| "num_add _ PosInf = PosInf"
| "num_add NegInf _ = NegInf"
| "num_add _ NegInf = NegInf"

definition num_sub :: "number \<Rightarrow> number \<Rightarrow> number" where
  "num_sub a b = num_add a (num_neg b)"

fun Math_abs :: "number \<Rightarrow> number" where
  "Math_abs NaN = NaN"
| "Math_abs NegInf = PosInf"
| "Math_abs PosInf = PosInf"
| "Math_abs (Fin r) = Fin \<bar>r\<bar>"

text \<open>\<^verbatim>\<open>a > b\<close> on numbers: false whenever an operand is NaN.\<close>

fun num_gt :: "number \<Rightarrow> number \<Rightarrow> bool" where
  "num_gt (Fin a) (Fin b) = (a > b)"
| "num_gt NaN _ = False"
| "num_gt _ NaN = False"
| "num_gt PosInf PosInf = False"
| "num_gt PosInf _ = True"
| "num_gt NegInf _ = False"
| "num_gt (Fin a) NegInf = True"
| "num_gt (Fin a) PosInf = False"


section \<open>Data model of VideoPreview.tsx\<close>

record ClipTransform =
  x :: "number option"
  y :: "number option"
  scale :: "number option"
  rotation :: "number option"
  opacity :: "number option"
  cropTop :: "number option"
  cropBottom :: "number option"
  cropLeft :: "number option"
  cropRight :: "number option"

text \<open>The literal type \<^verbatim>\<open>'video' | 'image' | 'audio'\<close>.\<close>

datatype MediaType = video | image | audio

text \<open>The field \<^verbatim>\<open>id\<close> is written \<open>id'\<close>, since \<open>id\<close> is the identity function of HOL.\<close>

record ClipLayer =
  id' :: string
  url :: string
  type :: MediaType
  trackId :: string
  clipTime :: number
  transform :: "ClipTransform option"


section \<open>Transform resolver: getTransformStyles\<close>

text \<open>
  The source pushes template strings on the array \<^verbatim>\<open>transforms\<close> and joins them with a
  blank. Each template string is kept here as a constructor holding the numbers that
  the template prints, so the joined string is the list of these constructors, read
  left to right. Likewise \<^verbatim>\<open>inset(T% R% B% L%)\<close> is \<open>Inset T R B L\<close>.
\<close>

datatype transform_fn =
    Translate number number
  | Scale number
  | Rotate number

datatype clip_path = Inset number number number number

record CSSProperties =
  zIndex :: number
  transform :: "transform_fn list option"
  opacity :: number
  clipPath :: "clip_path option"
  cursor :: "string option"

text \<open>\<^verbatim>\<open>transform || {}\<close>: an object is always truthy, \<^verbatim>\<open>undefined\<close> gives the empty object.\<close>

definition no_transform :: ClipTransform where
  "no_transform = \<lparr> x = None, y = None, scale = None, rotation = None,
     ClipTransform.opacity = None, cropTop = None, cropBottom = None,
     cropLeft = None, cropRight = None \<rparr>"

text \<open>The local array \<^verbatim>\<open>transforms\<close> after the three conditional pushes (lines 42 to 57).\<close>

definition transforms :: "ClipTransform \<Rightarrow> transform_fn list" where
  "transforms t =
     (let ts0 = [];
          ts1 = (if truthy (ClipTransform.x t) \<or> truthy (ClipTransform.y t)
                 then ts0 @ [Translate (or_else (ClipTransform.x t) (Fin 0))
                                       (or_else (ClipTransform.y t) (Fin 0))]
                 else ts0);
          ts2 = (case scale t of
                   Some s \<Rightarrow> if truthy_num s \<and> s \<noteq> Fin 1 then ts1 @ [Scale s] else ts1
                 | None \<Rightarrow> ts1);
          ts3 = (case rotation t of
                   Some r \<Rightarrow> if truthy_num r then ts2 @ [Rotate r] else ts2
                 | None \<Rightarrow> ts2)
      in ts3)"

text \<open>
  \<^verbatim>\<open>cropTop || cropBottom || cropLeft || cropRight\<close> on the four defaulted numbers, read
  as a condition.
\<close>

definition hasClip :: "ClipTransform \<Rightarrow> bool" where
  "hasClip t =
     (let cT = or_else (cropTop t) (Fin 0);
          cB = or_else (cropBottom t) (Fin 0);
          cL = or_else (cropLeft t) (Fin 0);
          cR = or_else (cropRight t) (Fin 0)
      in truthy_num cT \<or> truthy_num cB \<or> truthy_num cL \<or> truthy_num cR)"

text \<open>
  \<^verbatim>\<open>getTransformStyles(transform?, zIndex = 0, isDragging?)\<close>. The body reads properties
  of an object, tests and prints numbers: no statement of it can throw, so the model
  has no error result.
\<close>

definition getTransformStyles ::
  "ClipTransform option \<Rightarrow> number option \<Rightarrow> bool option \<Rightarrow> CSSProperties" where
  "getTransformStyles tr zi isDragging =
     (let t = (case tr of Some t' \<Rightarrow> t' | None \<Rightarrow> no_transform);
          ts = transforms t;
          cT = or_else (cropTop t) (Fin 0);
          cB = or_else (cropBottom t) (Fin 0);
          cL = or_else (cropLeft t) (Fin 0);
          cR = or_else (cropRight t) (Fin 0)
      in \<lparr> zIndex = (case zi of Some z \<Rightarrow> z | None \<Rightarrow> Fin 0),
           CSSProperties.transform = (if length ts > 0 then Some ts else None),
           CSSProperties.opacity = nullish (ClipTransform.opacity t) (Fin 1),
           clipPath = (if hasClip t then Some (Inset cT cR cB cL) else None),
           cursor = (if isDragging = Some True then Some ''grabbing'' else None) \<rparr>)"

text \<open>
  The transform list as the specification words it: translate when \<^verbatim>\<open>x\<close> or \<^verbatim>\<open>y\<close> is
  truthy, scale when it is present and not 1, rotate when it is non-zero.
\<close>

definition spec_transforms :: "ClipTransform \<Rightarrow> transform_fn list" where
  "spec_transforms t =
     (if truthy (ClipTransform.x t) \<or> truthy (ClipTransform.y t)
      then [Translate (or_else (ClipTransform.x t) (Fin 0))
                      (or_else (ClipTransform.y t) (Fin 0))]
      else [])
     @ (case scale t of Some s \<Rightarrow> if s \<noteq> Fin 1 then [Scale s] else [] | None \<Rightarrow> [])
     @ (case rotation t of Some r \<Rightarrow> if truthy_num r then [Rotate r] else [] | None \<Rightarrow> [])"

text \<open>Position of a transform function in the fixed order translate, scale, rotate.\<close>

fun rank :: "transform_fn \<Rightarrow> nat" where
  "rank (Translate _ _) = 0"
| "rank (Scale _) = 1"
| "rank (Rotate _) = 2"


section \<open>Layer ordering: sortedLayers\<close>

text \<open>
  \<^verbatim>\<open>[...layers].sort((a, b) => a.trackId.localeCompare(b.trackId))\<close>.
  \<^verbatim>\<open>Array.prototype.sort\<close> is stable, and with a consistent compare function it
  returns the elements in ascending order of that function. The model inserts the
  elements from the right, each one in front of the first element that it does not
  follow: this is the stable arrangement.
\<close>

fun insert_by :: "('a \<Rightarrow> 'a \<Rightarrow> int) \<Rightarrow> 'a \<Rightarrow> 'a list \<Rightarrow> 'a list" where
  "insert_by c a [] = [a]"
| "insert_by c a (b # bs) = (if c a b \<le> 0 then a # b # bs else b # insert_by c a bs)"

fun Array_sort :: "('a \<Rightarrow> 'a \<Rightarrow> int) \<Rightarrow> 'a list \<Rightarrow> 'a list" where
  "Array_sort c [] = []"
| "Array_sort c (a # as) = insert_by c a (Array_sort c as)"

text \<open>
  \<^verbatim>\<open>String.prototype.localeCompare\<close> belongs to the host (ECMA-402, the collation of
  the default locale), not to the repository: it is a parameter of the model. Its
  result is negative, zero or positive.
\<close>

type_synonym comparator = "string \<Rightarrow> string \<Rightarrow> int"

definition sortedLayers :: "comparator \<Rightarrow> ClipLayer list \<Rightarrow> ClipLayer list" where
  "sortedLayers localeCompare layers =
     Array_sort (\<lambda>a b. localeCompare (trackId a) (trackId b)) layers"

text \<open>What a host guarantees of \<^verbatim>\<open>localeCompare\<close>: it is a consistent compare function.\<close>

definition consistent :: "comparator \<Rightarrow> bool" where
  "consistent c \<longleftrightarrow>
     (\<forall>a. c a a = 0) \<and>
     (\<forall>a b. (c a b < 0) = (c b a > 0)) \<and>
     (\<forall>a b d. c a b \<le> 0 \<and> c b d \<le> 0 \<longrightarrow> c a d \<le> 0)"

text \<open>The layers are in ascending order of their track under a compare function.\<close>

definition sorted_by :: "comparator \<Rightarrow> ClipLayer list \<Rightarrow> bool" where
  "sorted_by c ls = sorted_wrt (\<lambda>a b. c (trackId a) (trackId b) \<le> 0) ls"

text \<open>
  The ordinal comparison of the specification: lexicographic on the character codes,
  the same in every locale.
\<close>

definition ordinalCompare :: comparator where
  "ordinalCompare a b = (if a < b then - 1 else if a = b then 0 else 1)"

text \<open>
  A concrete \<^verbatim>\<open>localeCompare\<close>, for evaluation: the root collation of the Unicode
  Collation Algorithm on strings of ASCII letters and digits. Such strings are
  compared first by their letters with the case ignored (digits before letters); only
  strings equal at that level are compared by case, lower case first. Other
  characters are given their code as primary weight, which is not claimed to be their
  place in the root collation.
\<close>

definition primary_weight :: "char \<Rightarrow> nat" where
  "primary_weight ch =
     (let n = of_char ch in if 65 \<le> n \<and> n \<le> 90 then n + 32 else n)"

definition tertiary_weight :: "char \<Rightarrow> nat" where
  "tertiary_weight ch = (let n = (of_char ch :: nat) in if 65 \<le> n \<and> n \<le> 90 then 1 else 0)"

definition collation_key :: "string \<Rightarrow> nat list \<times> nat list" where
  "collation_key s = (map primary_weight s, map tertiary_weight s)"

definition localeCompare_root :: comparator where
  "localeCompare_root a b =
     (if collation_key a < collation_key b then - 1
      else if collation_key a = collation_key b then 0 else 1)"


section \<open>Base layer and seek effect\<close>

text \<open>The test of lines 90 and 203: \<^verbatim>\<open>trackId === 'V1' && type === 'video'\<close>.\<close>

definition isBaseVideo :: "ClipLayer \<Rightarrow> bool" where
  "isBaseVideo l \<longleftrightarrow> trackId l = ''V1'' \<and> type l = video"

text \<open>\<^verbatim>\<open>layers.find(...)\<close>: the first element that passes the test, \<^verbatim>\<open>undefined\<close> if none.\<close>

definition baseVideoLayer :: "ClipLayer list \<Rightarrow> ClipLayer option" where
  "baseVideoLayer layers = find isBaseVideo layers"

text \<open>
  The media element, as far as the component reads it, and the writes and calls the
  component makes on it.
\<close>

record HTMLVideoElement =
  currentTime :: number

datatype media_cmd = SetCurrentTime number | Play | Pause

text \<open>
  The body of the effect of lines 106 to 115, given \<^verbatim>\<open>videoRef.current\<close>, the base layer
  and \<^verbatim>\<open>isPlaying\<close>; the result is what it does to the element. The literal \<^verbatim>\<open>0.1\<close> is
  the double nearest to one tenth.
\<close>

definition seekEffect ::
  "HTMLVideoElement option \<Rightarrow> ClipLayer option \<Rightarrow> bool \<Rightarrow> media_cmd list" where
  "seekEffect videoRef base isPlaying =
     (case videoRef of
        None \<Rightarrow> []
      | Some v \<Rightarrow>
          (case base of
             None \<Rightarrow> []
           | Some b \<Rightarrow>
               if isPlaying then []
               else (let target = clipTime b
                     in if num_gt (Math_abs (num_sub (currentTime v) target))
                                (to_double (1 / 10))
                        then [SetCurrentTime target]
                        else [])))"


section \<open>Drag interaction\<close>

record MouseEvent =
  button :: int
  clientX :: number
  clientY :: number

record DragStart =
  x :: number
  y :: number
  layerX :: number
  layerY :: number

text \<open>
  The two pieces of component state, and \<open>listening\<close>: whether the window listeners of
  the drag effect are registered.
\<close>

record DragState =
  draggingLayer :: "string option"
  dragStart :: "DragStart option"
  listening :: bool

text \<open>The optional callback props: \<open>True\<close> when the owner has supplied the callback.\<close>

record Props =
  onLayerMove :: bool
  onLayerSelect :: bool

text \<open>A call of a callback prop.\<close>

datatype request = OnLayerMove string number number | OnLayerSelect string

definition idle :: DragState where
  "idle = \<lparr> draggingLayer = None, dragStart = None, listening = False \<rparr>"

text \<open>
  Lines 137 to 155. The two early returns leave the state alone and call nothing.
  \<^verbatim>\<open>layer.transform?.x\<close> is \<^verbatim>\<open>undefined\<close> when the layer has no transform.
  (\<^verbatim>\<open>preventDefault\<close> and \<^verbatim>\<open>stopPropagation\<close> act on the browser only.)
\<close>

definition handleLayerMouseDown ::
  "Props \<Rightarrow> DragState \<Rightarrow> MouseEvent \<Rightarrow> ClipLayer \<Rightarrow> DragState \<times> request list" where
  "handleLayerMouseDown p st e layer =
     (if trackId layer = ''V1'' then (st, [])
      else if button e \<noteq> 0 then (st, [])
      else (st \<lparr> draggingLayer := Some (id' layer),
                 dragStart := Some \<lparr> DragStart.x = clientX e, DragStart.y = clientY e,
                                      layerX = or_else (case ClipLayer.transform layer of
                                                          None \<Rightarrow> None
                                                        | Some t \<Rightarrow> ClipTransform.x t) (Fin 0),
                                      layerY = or_else (case ClipLayer.transform layer of
                                                          None \<Rightarrow> None
                                                        | Some t \<Rightarrow> ClipTransform.y t) (Fin 0) \<rparr> \<rparr>,
            if onLayerSelect p then [OnLayerSelect (id' layer)] else []))"

text \<open>Lines 161 to 169, with the \<^verbatim>\<open>draggingLayer\<close> and \<^verbatim>\<open>dragStart\<close> the closure holds.\<close>

definition handleMouseMove ::
  "Props \<Rightarrow> string \<Rightarrow> DragStart \<Rightarrow> MouseEvent \<Rightarrow> request list" where
  "handleMouseMove p lid ds e =
     (let deltaX = num_sub (clientX e) (DragStart.x ds);
          deltaY = num_sub (clientY e) (DragStart.y ds);
          newX = num_add (layerX ds) deltaX;
          newY = num_add (layerY ds) deltaY
      in if onLayerMove p then [OnLayerMove lid newX newY] else [])"

text \<open>Lines 171 to 174.\<close>

definition handleMouseUp :: "DragState \<Rightarrow> DragState" where
  "handleMouseUp st = st \<lparr> draggingLayer := None, dragStart := None \<rparr>"

text \<open>
  The guard of line 159, \<^verbatim>\<open>!draggingLayer || !dragStart\<close>, negated: \<^verbatim>\<open>null\<close> and the empty
  string are falsy, an object is truthy.
\<close>

definition session_active :: "DragState \<Rightarrow> bool" where
  "session_active st \<longleftrightarrow>
     (case draggingLayer st of None \<Rightarrow> False | Some lid \<Rightarrow> lid \<noteq> [])
     \<and> dragStart st \<noteq> None"

text \<open>
  The effect of lines 158 to 183 after a render: its previous cleanup has removed the
  listeners, and they are registered again when the guard lets the body run. (When no
  dependency has changed React runs neither, and the listeners are those of the last
  run, made from the same values.)
\<close>

definition dragEffect :: "DragState \<Rightarrow> DragState" where
  "dragEffect st = st \<lparr> listening := session_active st \<rparr>"

text \<open>
  The events the component handles: a pointer-down that React passes to
  \<^verbatim>\<open>handleLayerMouseDown\<close> with a layer, and the pointer-move and pointer-up of the
  window, which reach a handler only while the listeners are registered.
\<close>

datatype event =
    LayerMouseDown MouseEvent ClipLayer
  | WindowMouseMove MouseEvent
  | WindowMouseUp MouseEvent

fun dispatch :: "Props \<Rightarrow> DragState \<Rightarrow> event \<Rightarrow> DragState \<times> request list" where
  "dispatch p st (LayerMouseDown e layer) = handleLayerMouseDown p st e layer"
| "dispatch p st (WindowMouseMove e) =
     (if listening st
      then (case (draggingLayer st, dragStart st) of
              (Some lid, Some ds) \<Rightarrow> (st, handleMouseMove p lid ds e)
            | _ \<Rightarrow> (st, []))
      else (st, []))"
| "dispatch p st (WindowMouseUp e) =
     (if listening st then (handleMouseUp st, []) else (st, []))"

text \<open>One event: its handler, then the render and the effect that the new state causes.\<close>

definition step :: "Props \<Rightarrow> DragState \<Rightarrow> event \<Rightarrow> DragState \<times> request list" where
  "step p st ev = (case dispatch p st ev of (st', out) \<Rightarrow> (dragEffect st', out))"

fun run :: "Props \<Rightarrow> DragState \<Rightarrow> event list \<Rightarrow> DragState \<times> request list" where
  "run p st [] = (st, [])"
| "run p st (ev # evs) =
     (case step p st ev of
        (st', out) \<Rightarrow> (case run p st' evs of (st'', outs) \<Rightarrow> (st'', out @ outs)))"


text \<open>The layers that have received a qualifying pointer-down.\<close>

fun started :: "event list \<Rightarrow> ClipLayer list" where
  "started [] = []"
| "started (LayerMouseDown e layer # evs) =
     (if button e = 0 \<and> trackId layer \<noteq> ''V1'' then layer # started evs else started evs)"
| "started (_ # evs) = started evs"

text \<open>The layer a request names.\<close>

fun request_id :: "request \<Rightarrow> string" where
  "request_id (OnLayerMove lid _ _) = lid"
| "request_id (OnLayerSelect lid) = lid"

fun is_move :: "request \<Rightarrow> bool" where
  "is_move (OnLayerMove _ _ _) = True"
| "is_move (OnLayerSelect _) = False"


section \<open>Rendering of the layers\<close>

text \<open>
  What the component returns for one layer (lines 202 to 259), with the attributes that
  bear on playback and interaction: the key, whether \<^verbatim>\<open>ref\<close> is \<^verbatim>\<open>videoRef\<close>, the source,
  the style, \<^verbatim>\<open>muted\<close>, and whether \<^verbatim>\<open>onLoadedData\<close> and \<^verbatim>\<open>onMouseDown\<close> are set; for an
  image, whether \<^verbatim>\<open>pointerEvents\<close> is \<^verbatim>\<open>'auto'\<close>. Class names and the decorations inside
  an image layer are left out. An audio layer renders \<^verbatim>\<open>null\<close>.
\<close>

datatype rendered =
    VideoElement string bool string CSSProperties bool bool bool
  | ImageElement string string CSSProperties bool bool
  | Null

definition renderLayer :: "string option \<Rightarrow> ClipLayer \<Rightarrow> nat \<Rightarrow> rendered" where
  "renderLayer dragging layer index =
     (let isBase = (trackId layer = ''V1'' \<and> type layer = video);
          isOverlay = (trackId layer \<noteq> ''V1'');
          isDragging = (dragging = Some (id' layer));
          styles = getTransformStyles (ClipLayer.transform layer)
                     (Some (Fin (real (index + 1)))) (Some isDragging)
      in case type layer of
           video \<Rightarrow> VideoElement (id' layer) isBase (url layer) styles (\<not> isBase) isBase isOverlay
         | image \<Rightarrow> ImageElement (id' layer) (url layer) styles isOverlay isOverlay
         | audio \<Rightarrow> Null)"

text \<open>
  \<^verbatim>\<open>sortedLayers.map((layer, index) => ...)\<close>. For an empty layer set the component
  returns a placeholder before it reaches the map; the list of layer elements is
  empty then as well.
\<close>

definition renderLayers :: "comparator \<Rightarrow> string option \<Rightarrow> ClipLayer list \<Rightarrow> rendered list" where
  "renderLayers localeCompare dragging layers =
     map (\<lambda>(index, layer). renderLayer dragging layer index)
         (enumerate 0 (sortedLayers localeCompare layers))"

text \<open>A video element that can be heard: \<^verbatim>\<open>muted\<close> is false.\<close>

fun unmuted :: "rendered \<Rightarrow> bool" where
  "unmuted (VideoElement _ _ _ _ m _ _) = (\<not> m)"
| "unmuted _ = False"


section \<open>Concrete inputs\<close>

definition mk_layer :: "string \<Rightarrow> MediaType \<Rightarrow> string \<Rightarrow> number \<Rightarrow> ClipLayer" where
  "mk_layer i ty tr ct =
     \<lparr> id' = i, url = ''u'', type = ty, trackId = tr, clipTime = ct,
       ClipLayer.transform = None \<rparr>"

definition ev_at :: "int \<Rightarrow> real \<Rightarrow> real \<Rightarrow> MouseEvent" where
  "ev_at b cx cy = \<lparr> button = b, clientX = Fin cx, clientY = Fin cy \<rparr>"


definition both_callbacks :: Props where
  "both_callbacks = \<lparr> onLayerMove = True, onLayerSelect = True \<rparr>"


section \<open>Auxiliary lemmas\<close>

subsection \<open>The stable sort\<close>

lemma mset_insert_by: "mset (insert_by c a xs) = add_mset a (mset xs)"
  by (induction xs) auto

lemma mset_Array_sort: "mset (Array_sort c xs) = mset xs"
  by (induction xs) (auto simp: mset_insert_by)

lemma set_insert_by: "set (insert_by c a xs) = insert a (set xs)"
  by (induction xs) auto

lemma sorted_insert_by:
  assumes tot: "\<And>a b. c a b \<le> 0 \<or> c b a \<le> 0"
    and tr: "\<And>a b d. c a b \<le> 0 \<Longrightarrow> c b d \<le> 0 \<Longrightarrow> c a d \<le> 0"
  shows "sorted_wrt (\<lambda>a b. c a b \<le> 0) xs \<Longrightarrow> sorted_wrt (\<lambda>a b. c a b \<le> 0) (insert_by c a xs)"
proof (induction xs)
  case Nil
  then show ?case by simp
next
  case (Cons b bs)
  show ?case
  proof (cases "c a b \<le> 0")
    case True
    with Cons.prems show ?thesis by (auto intro: tr)
  next
    case False
    with tot[of a b] have "c b a \<le> 0" by simp
    with False Cons show ?thesis by (auto simp: set_insert_by)
  qed
qed

lemma sorted_Array_sort:
  assumes tot: "\<And>a b. c a b \<le> 0 \<or> c b a \<le> 0"
    and tr: "\<And>a b d. c a b \<le> 0 \<Longrightarrow> c b d \<le> 0 \<Longrightarrow> c a d \<le> 0"
  shows "sorted_wrt (\<lambda>a b. c a b \<le> 0) (Array_sort c xs)"
  by (induction xs) (auto intro: sorted_insert_by[OF tot tr])

lemma filter_insert_by:
  assumes "\<And>b. P b \<Longrightarrow> c a b \<le> 0" "P a"
  shows "filter P (insert_by c a xs) = a # filter P xs"
  using assms by (induction xs) auto

lemma filter_insert_by_other:
  "\<not> P a \<Longrightarrow> filter P (insert_by c a xs) = filter P xs"
  by (induction xs) auto

lemma Array_sort_sorted:
  "sorted_wrt (\<lambda>a b. c a b \<le> 0) xs \<Longrightarrow> Array_sort c xs = xs"
proof (induction xs)
  case Nil
  then show ?case by simp
next
  case (Cons a as)
  then show ?case by (cases as) auto
qed
lemma consistent_total: "consistent c \<Longrightarrow> c a b \<le> 0 \<or> c b a \<le> 0"
  unfolding consistent_def by (metis not_le order_less_imp_le)

lemma consistent_trans: "consistent c \<Longrightarrow> c a b \<le> 0 \<Longrightarrow> c b d \<le> 0 \<Longrightarrow> c a d \<le> 0"
  unfolding consistent_def by blast

lemma consistent_refl: "consistent c \<Longrightarrow> c a a = 0"
  unfolding consistent_def by blast

lemma filter_Array_sort_key:
  assumes "\<And>a b. key a = key b \<Longrightarrow> c a b \<le> 0"
  shows "filter (\<lambda>l. key l = k) (Array_sort c xs) = filter (\<lambda>l. key l = k) xs"
proof (induction xs)
  case Nil
  then show ?case by simp
next
  case (Cons a as)
  show ?case
  proof (cases "key a = k")
    case True
    then have "filter (\<lambda>l. key l = k) (insert_by c a (Array_sort c as))
        = a # filter (\<lambda>l. key l = k) (Array_sort c as)"
      by (intro filter_insert_by) (simp_all add: assms)
    with True Cons.IH show ?thesis by simp
  next
    case False
    then show ?thesis using Cons.IH by (simp add: filter_insert_by_other)
  qed
qed

subsection \<open>The concrete collation\<close>

lemmas root_defs = localeCompare_root_def collation_key_def primary_weight_def tertiary_weight_def

lemma consistent_root: "consistent localeCompare_root"
  unfolding consistent_def localeCompare_root_def
  by (auto simp: not_less dest: less_trans)

subsection \<open>The transform resolver\<close>

lemma transforms_cases:
  "transforms t =
     (if truthy (ClipTransform.x t) \<or> truthy (ClipTransform.y t)
      then [Translate (or_else (ClipTransform.x t) (Fin 0)) (or_else (ClipTransform.y t) (Fin 0))]
      else [])
     @ (if truthy (scale t) \<and> scale t \<noteq> Some (Fin 1) then [Scale (the (scale t))] else [])
     @ (if truthy (rotation t) then [Rotate (the (rotation t))] else [])"
  by (cases "scale t"; cases "rotation t") (simp_all add: transforms_def Let_def)

lemma hasClip_iff:
  "hasClip t \<longleftrightarrow> truthy (cropTop t) \<or> truthy (cropBottom t) \<or> truthy (cropLeft t) \<or> truthy (cropRight t)"
  by (cases "cropTop t"; cases "cropBottom t"; cases "cropLeft t"; cases "cropRight t")
     (auto simp: hasClip_def)

subsection \<open>The first element that passes a test\<close>

lemma find_Some_split:
  "find P xs = Some b \<longleftrightarrow> (\<exists>pre post. xs = pre @ b # post \<and> P b \<and> (\<forall>l\<in>set pre. \<not> P l))"
proof (induction xs)
  case Nil
  then show ?case by simp
next
  case (Cons a as)
  show ?case
  proof (cases "P a")
    case True
    have "(\<exists>pre post. a # as = pre @ b # post \<and> P b \<and> (\<forall>l\<in>set pre. \<not> P l)) \<longleftrightarrow> a = b"
    proof
      assume "\<exists>pre post. a # as = pre @ b # post \<and> P b \<and> (\<forall>l\<in>set pre. \<not> P l)"
      then obtain pre post where h: "a # as = pre @ b # post" "\<forall>l\<in>set pre. \<not> P l" by blast
      with True show "a = b" by (cases pre) auto
    next
      assume "a = b"
      with True have "a # as = [] @ b # as \<and> P b \<and> (\<forall>l\<in>set []. \<not> P l)" by simp
      then show "\<exists>pre post. a # as = pre @ b # post \<and> P b \<and> (\<forall>l\<in>set pre. \<not> P l)" by blast
    qed
    with True show ?thesis by simp
  next
    case False
    have "(\<exists>pre post. a # as = pre @ b # post \<and> P b \<and> (\<forall>l\<in>set pre. \<not> P l))
       \<longleftrightarrow> (\<exists>pre post. as = pre @ b # post \<and> P b \<and> (\<forall>l\<in>set pre. \<not> P l))"
    proof
      assume "\<exists>pre post. a # as = pre @ b # post \<and> P b \<and> (\<forall>l\<in>set pre. \<not> P l)"
      then obtain pre post where h: "a # as = pre @ b # post" "P b" "\<forall>l\<in>set pre. \<not> P l" by blast
      with False obtain pre' where "pre = a # pre'" by (cases pre) auto
      with h have "as = pre' @ b # post \<and> P b \<and> (\<forall>l\<in>set pre'. \<not> P l)" by simp
      then show "\<exists>pre post. as = pre @ b # post \<and> P b \<and> (\<forall>l\<in>set pre. \<not> P l)" by blast
    next
      assume "\<exists>pre post. as = pre @ b # post \<and> P b \<and> (\<forall>l\<in>set pre. \<not> P l)"
      then obtain pre post where h: "as = pre @ b # post" "P b" "\<forall>l\<in>set pre. \<not> P l" by blast
      with False have "a # as = (a # pre) @ b # post \<and> P b \<and> (\<forall>l\<in>set (a # pre). \<not> P l)" by simp
      then show "\<exists>pre post. a # as = pre @ b # post \<and> P b \<and> (\<forall>l\<in>set pre. \<not> P l)" by blast
    qed
    with False Cons.IH show ?thesis by simp
  qed
qed


subsection \<open>Rounding to doubles\<close>

lemmas double_defs =
  to_double_def binade_def pow2_def round_even_def Let_def bit_length.simps

lemma double_tenth: "to_double (1 / 10) = Fin (3602879701896397 / 36028797018963968)"
  by (simp add: double_defs)

subsection \<open>The drag controller\<close>






lemma started_Cons: "started (ev # evs) = started [ev] @ started evs"
  by (cases ev) simp_all

lemma started_overlay: "l \<in> set (started evs) \<Longrightarrow> trackId l \<noteq> ''V1''"
  by (induction evs rule: started.induct) (auto split: if_splits)

lemma step_session_source:
  assumes "step p st ev = (st', out)"
    and "\<forall>i. draggingLayer st = Some i \<longrightarrow> (\<exists>l\<in>L. id' l = i)"
  shows "(\<forall>i. draggingLayer st' = Some i \<longrightarrow> (\<exists>l\<in>L \<union> set (started [ev]). id' l = i))
       \<and> (\<forall>r\<in>set out. \<exists>l\<in>L \<union> set (started [ev]). id' l = request_id r)"
proof (cases ev)
  case (LayerMouseDown e layer)
  with assms show ?thesis
    by (auto simp: step_def handleLayerMouseDown_def dragEffect_def split: if_splits)
next
  case (WindowMouseMove e)
  with assms show ?thesis
    by (auto simp: step_def handleMouseMove_def dragEffect_def Let_def
             split: if_splits option.splits)
next
  case (WindowMouseUp e)
  with assms show ?thesis
    by (auto simp: step_def handleMouseUp_def dragEffect_def split: if_splits)
qed

lemma run_session_source:
  assumes "\<forall>i. draggingLayer st = Some i \<longrightarrow> (\<exists>l\<in>L. id' l = i)"
  shows "(\<forall>i. draggingLayer (fst (run p st evs)) = Some i
             \<longrightarrow> (\<exists>l\<in>L \<union> set (started evs). id' l = i))
       \<and> (\<forall>r\<in>set (snd (run p st evs)). \<exists>l\<in>L \<union> set (started evs). id' l = request_id r)"
  using assms
proof (induction evs arbitrary: st L)
  case Nil
  then show ?case by simp
next
  case (Cons ev evs)
  obtain st' out where s: "step p st ev = (st', out)" by (cases "step p st ev")
  obtain st'' outs where r: "run p st' evs = (st'', outs)" by (cases "run p st' evs")
  from step_session_source [OF s Cons.prems]
  have a: "\<forall>i. draggingLayer st' = Some i \<longrightarrow> (\<exists>l\<in>L \<union> set (started [ev]). id' l = i)"
    and b: "\<forall>r\<in>set out. \<exists>l\<in>L \<union> set (started [ev]). id' l = request_id r"
    by blast+
  from Cons.IH [OF a] r
  have c: "\<forall>i. draggingLayer st'' = Some i
             \<longrightarrow> (\<exists>l\<in>(L \<union> set (started [ev])) \<union> set (started evs). id' l = i)"
    and d: "\<forall>r\<in>set outs. \<exists>l\<in>(L \<union> set (started [ev])) \<union> set (started evs). id' l = request_id r"
    by simp_all
  have e: "(L \<union> set (started [ev])) \<union> set (started evs) = L \<union> set (started (ev # evs))"
    using started_Cons [of ev evs] by auto
  have f: "L \<union> set (started [ev]) \<subseteq> L \<union> set (started (ev # evs))"
    using started_Cons [of ev evs] by auto
  from b f have b': "\<forall>r\<in>set out. \<exists>l\<in>L \<union> set (started (ev # evs)). id' l = request_id r"
    by blast
  from c d b' show ?case
    unfolding e by (auto simp: s r)
qed






lemma ex_B: "button (ev_at 0 100 100) = 0
      \<and> trackId (mk_layer ''B'' image ''V2'' (Fin 0)) \<noteq> ''V1''
      \<and> id' (mk_layer ''B'' image ''V2'' (Fin 0)) \<noteq> []"
  by (simp add: ev_at_def mk_layer_def)

subsection \<open>The rendered elements\<close>

lemma unmuted_renderLayer: "unmuted (renderLayer dr layer i) = isBaseVideo layer"
  by (cases "type layer") (simp_all add: renderLayer_def Let_def isBaseVideo_def)

lemma count_unmuted_enumerate:
  "length (filter unmuted (map (\<lambda>(i, l). renderLayer dr l i) (enumerate n ls)))
     = length (filter isBaseVideo ls)"
  by (induction ls arbitrary: n) (simp_all add: unmuted_renderLayer)

lemma count_sortedLayers:
  "length (filter P (sortedLayers c ls)) = length (filter P ls)"
proof -
  have "mset (filter P (sortedLayers c ls)) = mset (filter P ls)"
    by (simp add: sortedLayers_def mset_Array_sort)
  then show ?thesis by (metis size_mset)
qed

lemma find_unique:
  "length (filter P xs) \<le> 1 \<Longrightarrow> l \<in> set xs \<Longrightarrow> P l \<Longrightarrow> find P xs = Some l"
proof (induction xs)
  case Nil
  then show ?case by simp
next
  case (Cons a as)
  show ?case
  proof (cases "P a")
    case True
    with Cons.prems have "filter P as = []" by simp
    with Cons.prems True show ?thesis by (auto simp: filter_empty_conv)
  next
    case False
    with Cons show ?thesis by auto
  qed
qed

lemma find_Some_P: "find P xs = Some l \<Longrightarrow> P l"
  by (induction xs) (auto split: if_splits)


section \<open>Layer ordering\<close>

text \<open>
  Claim C1, as amended. The layers are sorted by the host's \<^verbatim>\<open>localeCompare\<close> on
  \<^verbatim>\<open>trackId\<close>, which is the collation of the default locale and not an ordinal
  comparison. For every consistent compare function in that place and every input
  sequence, \<open>sortedLayers\<close> returns a rearrangement of the input that ascends under
  the compare function, keeps layers of equal \<^verbatim>\<open>trackId\<close> in their input order, and
  is left as it is when the resolver runs on it again.
\<close>

theorem sortedLayers_sorted_stable:
  assumes "consistent localeCompare"
  shows "mset (sortedLayers localeCompare layers) = mset layers
     \<and> sorted_by localeCompare (sortedLayers localeCompare layers)
     \<and> (\<forall>k. filter (\<lambda>l. trackId l = k) (sortedLayers localeCompare layers)
             = filter (\<lambda>l. trackId l = k) layers)
     \<and> sortedLayers localeCompare (sortedLayers localeCompare layers)
         = sortedLayers localeCompare layers"
proof -
  let ?c = "\<lambda>a b. localeCompare (trackId a) (trackId b)"
  have tot: "\<And>a b. ?c a b \<le> 0 \<or> ?c b a \<le> 0"
    using assms by (simp add: consistent_total)
  have tr: "\<And>a b d. ?c a b \<le> 0 \<Longrightarrow> ?c b d \<le> 0 \<Longrightarrow> ?c a d \<le> 0"
    using assms by (rule consistent_trans)
  have 1: "mset (sortedLayers localeCompare layers) = mset layers"
    by (simp add: sortedLayers_def mset_Array_sort)
  have 2: "sorted_by localeCompare (sortedLayers localeCompare layers)"
    unfolding sorted_by_def sortedLayers_def
    by (rule sorted_Array_sort [where c = ?c, OF tot tr])
  have 3: "\<forall>k. filter (\<lambda>l. trackId l = k) (sortedLayers localeCompare layers)
             = filter (\<lambda>l. trackId l = k) layers"
    unfolding sortedLayers_def
    using assms by (simp add: filter_Array_sort_key consistent_refl)
  have 4: "sortedLayers localeCompare (sortedLayers localeCompare layers)
         = sortedLayers localeCompare layers"
    using 2 unfolding sorted_by_def sortedLayers_def
    by (rule Array_sort_sorted)
  from 1 2 3 4 show ?thesis by blast
qed

text \<open>
  The theorem at the root collation and three layers: the layer of track V1 comes
  first, the two layers of track V2 keep their order.
\<close>

theorem sortedLayers_sorted_stable_witness:
  "consistent localeCompare_root
   \<and> sortedLayers localeCompare_root
        [mk_layer ''b'' image ''V2'' (Fin 0), mk_layer ''a'' video ''V1'' (Fin 5),
         mk_layer ''c'' image ''V2'' (Fin 0)]
       = [mk_layer ''a'' video ''V1'' (Fin 5), mk_layer ''b'' image ''V2'' (Fin 0),
          mk_layer ''c'' image ''V2'' (Fin 0)]
   \<and> sorted_by localeCompare_root
        [mk_layer ''a'' video ''V1'' (Fin 5), mk_layer ''b'' image ''V2'' (Fin 0),
         mk_layer ''c'' image ''V2'' (Fin 0)]"
proof -
  have e: "sortedLayers localeCompare_root
        [mk_layer ''b'' image ''V2'' (Fin 0), mk_layer ''a'' video ''V1'' (Fin 5),
         mk_layer ''c'' image ''V2'' (Fin 0)]
       = [mk_layer ''a'' video ''V1'' (Fin 5), mk_layer ''b'' image ''V2'' (Fin 0),
          mk_layer ''c'' image ''V2'' (Fin 0)]"
    by (simp add: sortedLayers_def mk_layer_def root_defs)
  show ?thesis
    using sortedLayers_sorted_stable [OF consistent_root,
        of "[mk_layer ''b'' image ''V2'' (Fin 0), mk_layer ''a'' video ''V1'' (Fin 5),
             mk_layer ''c'' image ''V2'' (Fin 0)]"]
    by (simp add: e consistent_root)
qed

text \<open>
  Claim C1 as it is worded fails: for the tracks \<^verbatim>\<open>"a"\<close> and \<^verbatim>\<open>"B"\<close> the collation puts
  \<^verbatim>\<open>"a"\<close> first, the character codes put \<^verbatim>\<open>"B"\<close> first, so the output is not in
  ascending ordinal order.
\<close>

theorem sortedLayers_ordinal_counterexample:
  "\<not> sorted_by ordinalCompare
        (sortedLayers localeCompare_root
           [mk_layer ''p'' image ''a'' (Fin 0), mk_layer ''q'' image ''B'' (Fin 0)])"
  by (simp add: sorted_by_def ordinalCompare_def sortedLayers_def mk_layer_def root_defs)


section \<open>Transform resolver\<close>

text \<open>
  Claim C2, as amended. The transform list holds at most one translate, one scale and
  one rotate, in this order. Translate is in the list exactly when \<^verbatim>\<open>x\<close> or \<^verbatim>\<open>y\<close> is
  truthy, with absent or falsy coordinates printed as 0; scale exactly when \<^verbatim>\<open>scale\<close> is
  truthy (present, not 0, not NaN) and not 1; rotate exactly when \<^verbatim>\<open>rotation\<close> is truthy.
  The style carries the list when it is not empty. For
  \<^verbatim>\<open>{x:10, y:0, scale:2, rotation:90}\<close> the list is translate, scale, rotate.
\<close>

theorem transforms_fixed_order:
  "sorted_wrt (\<lambda>f g. rank f < rank g) (transforms t)
   \<and> ((\<exists>a b. Translate a b \<in> set (transforms t))
        \<longleftrightarrow> truthy (ClipTransform.x t) \<or> truthy (ClipTransform.y t))
   \<and> (\<forall>a b. Translate a b \<in> set (transforms t) \<longrightarrow>
          a = or_else (ClipTransform.x t) (Fin 0) \<and> b = or_else (ClipTransform.y t) (Fin 0))
   \<and> (\<forall>s. Scale s \<in> set (transforms t) \<longleftrightarrow> scale t = Some s \<and> truthy_num s \<and> s \<noteq> Fin 1)
   \<and> (\<forall>r. Rotate r \<in> set (transforms t) \<longleftrightarrow> rotation t = Some r \<and> truthy_num r)
   \<and> CSSProperties.transform (getTransformStyles (Some t) zi dr)
        = (if transforms t = [] then None else Some (transforms t))
   \<and> transforms (no_transform \<lparr> ClipTransform.x := Some (Fin 10), ClipTransform.y := Some (Fin 0),
                    scale := Some (Fin 2), rotation := Some (Fin 90) \<rparr>)
        = [Translate (Fin 10) (Fin 0), Scale (Fin 2), Rotate (Fin 90)]"
proof -
  have 1: "sorted_wrt (\<lambda>f g. rank f < rank g) (transforms t)"
    by (simp add: transforms_cases)
  have 2: "(\<exists>a b. Translate a b \<in> set (transforms t))
        \<longleftrightarrow> truthy (ClipTransform.x t) \<or> truthy (ClipTransform.y t)"
    by (simp add: transforms_cases)
  have 3: "\<forall>a b. Translate a b \<in> set (transforms t) \<longrightarrow>
          a = or_else (ClipTransform.x t) (Fin 0) \<and> b = or_else (ClipTransform.y t) (Fin 0)"
    by (simp add: transforms_cases)
  have 4: "\<forall>s. Scale s \<in> set (transforms t) \<longleftrightarrow> scale t = Some s \<and> truthy_num s \<and> s \<noteq> Fin 1"
    by (cases "scale t") (auto simp: transforms_cases)
  have 5: "\<forall>r. Rotate r \<in> set (transforms t) \<longleftrightarrow> rotation t = Some r \<and> truthy_num r"
    by (cases "rotation t") (auto simp: transforms_cases)
  have 6: "CSSProperties.transform (getTransformStyles (Some t) zi dr)
        = (if transforms t = [] then None else Some (transforms t))"
    by (simp add: getTransformStyles_def Let_def)
  have 7: "transforms (no_transform \<lparr> ClipTransform.x := Some (Fin 10), ClipTransform.y := Some (Fin 0),
                    scale := Some (Fin 2), rotation := Some (Fin 90) \<rparr>)
        = [Translate (Fin 10) (Fin 0), Scale (Fin 2), Rotate (Fin 90)]"
    by (simp add: transforms_def Let_def no_transform_def)
  from 1 2 3 4 5 6 7 show ?thesis by blast
qed

text \<open>The theorem at \<^verbatim>\<open>{x:10, scale:2}\<close>: translate by (10, 0), scale by 2, no rotate.\<close>

theorem transforms_fixed_order_witness:
  "Scale (Fin 2) \<in> set (transforms (no_transform \<lparr> ClipTransform.x := Some (Fin 10), scale := Some (Fin 2) \<rparr>))
   \<and> Translate (Fin 10) (Fin 0) \<in> set (transforms (no_transform \<lparr> ClipTransform.x := Some (Fin 10), scale := Some (Fin 2) \<rparr>))
   \<and> (\<forall>r. Rotate r \<notin> set (transforms (no_transform \<lparr> ClipTransform.x := Some (Fin 10), scale := Some (Fin 2) \<rparr>)))"
  using transforms_fixed_order [where t = "no_transform \<lparr> ClipTransform.x := Some (Fin 10), scale := Some (Fin 2) \<rparr>"
      and zi = None and dr = None]
  by (auto simp: no_transform_def)

text \<open>
  Claim C2 as it is worded fails: a scale of 0 is present and is not 1, so the list of
  the specification holds \<open>Scale 0\<close>, but 0 is falsy and the code pushes nothing.
\<close>

theorem transforms_scale_zero_counterexample:
  "transforms (no_transform \<lparr> scale := Some (Fin 0) \<rparr>) = []
   \<and> spec_transforms (no_transform \<lparr> scale := Some (Fin 0) \<rparr>) = [Scale (Fin 0)]"
  by (simp add: transforms_def Let_def spec_transforms_def no_transform_def)

text \<open>
  Claim C7. The crop description is there exactly when one of the four crop fields is
  non-zero (truthy: present, not 0, not NaN). When it is there it is the inset of the
  four fields, an absent or falsy one counting as 0, in the order top, right, bottom,
  left. It does not depend on position, scale, rotation, opacity, z-index or the
  dragging flag: changing any of them leaves it as it is. With \<^verbatim>\<open>scale:2\<close> and
  \<^verbatim>\<open>cropLeft:50\<close> the left inset is 50.
\<close>

theorem clipPath_independent:
  "(clipPath (getTransformStyles (Some t) zi dr) \<noteq> None
      \<longleftrightarrow> truthy (cropTop t) \<or> truthy (cropBottom t) \<or> truthy (cropLeft t) \<or> truthy (cropRight t))
   \<and> (clipPath (getTransformStyles (Some t) zi dr) \<noteq> None \<longrightarrow>
        clipPath (getTransformStyles (Some t) zi dr)
          = Some (Inset (or_else (cropTop t) (Fin 0)) (or_else (cropRight t) (Fin 0))
                        (or_else (cropBottom t) (Fin 0)) (or_else (cropLeft t) (Fin 0))))
   \<and> clipPath (getTransformStyles
        (Some (t \<lparr> ClipTransform.x := a, ClipTransform.y := b, scale := s, rotation := r,
                   ClipTransform.opacity := p \<rparr>)) zi' dr')
       = clipPath (getTransformStyles (Some t) zi dr)
   \<and> clipPath (getTransformStyles None zi dr) = None
   \<and> clipPath (getTransformStyles
        (Some (no_transform \<lparr> scale := Some (Fin 2), cropLeft := Some (Fin 50) \<rparr>)) zi dr)
       = Some (Inset (Fin 0) (Fin 0) (Fin 0) (Fin 50))"
proof -
  have 1: "clipPath (getTransformStyles (Some t) zi dr) \<noteq> None
      \<longleftrightarrow> truthy (cropTop t) \<or> truthy (cropBottom t) \<or> truthy (cropLeft t) \<or> truthy (cropRight t)"
    by (simp add: getTransformStyles_def Let_def hasClip_iff)
  have 2: "clipPath (getTransformStyles (Some t) zi dr) \<noteq> None \<longrightarrow>
        clipPath (getTransformStyles (Some t) zi dr)
          = Some (Inset (or_else (cropTop t) (Fin 0)) (or_else (cropRight t) (Fin 0))
                        (or_else (cropBottom t) (Fin 0)) (or_else (cropLeft t) (Fin 0)))"
    by (simp add: getTransformStyles_def Let_def)
  have 3: "clipPath (getTransformStyles
        (Some (t \<lparr> ClipTransform.x := a, ClipTransform.y := b, scale := s, rotation := r,
                   ClipTransform.opacity := p \<rparr>)) zi' dr')
       = clipPath (getTransformStyles (Some t) zi dr)"
    by (simp add: getTransformStyles_def Let_def hasClip_def)
  have 4: "clipPath (getTransformStyles None zi dr) = None"
    by (simp add: getTransformStyles_def Let_def hasClip_def no_transform_def)
  have 5: "clipPath (getTransformStyles
        (Some (no_transform \<lparr> scale := Some (Fin 2), cropLeft := Some (Fin 50) \<rparr>)) zi dr)
       = Some (Inset (Fin 0) (Fin 0) (Fin 0) (Fin 50))"
    by (simp add: getTransformStyles_def Let_def hasClip_def no_transform_def)
  from 1 2 3 4 5 show ?thesis by blast
qed

text \<open>The theorem at \<^verbatim>\<open>{rotation:45, cropTop:10}\<close>.\<close>

theorem clipPath_independent_witness:
  "clipPath (getTransformStyles
      (Some (no_transform \<lparr> rotation := Some (Fin 45), cropTop := Some (Fin 10) \<rparr>)) None None)
     = Some (Inset (Fin 10) (Fin 0) (Fin 0) (Fin 0))"
  using clipPath_independent
    [where t = "no_transform \<lparr> rotation := Some (Fin 45), cropTop := Some (Fin 10) \<rparr>"
       and zi = None and dr = None and zi' = None and dr' = None
       and a = None and b = None and s = None and r = None and p = None]
  by (simp add: no_transform_def)

text \<open>
  Claim C8. The resolver returns a style for every input, an absent transform
  included, and the function has no failing branch. With no transform, or with a
  transform whose fields are all absent, there is no transform list, no crop, and the
  opacity is 1. The opacity of the output is the opacity of the input, 1 when that is
  absent; the z-index of the output is the ordinal passed in; the cursor is
  \<^verbatim>\<open>grabbing\<close> exactly when \<^verbatim>\<open>isDragging\<close> is true, and unset otherwise.
\<close>

theorem getTransformStyles_total:
  "getTransformStyles None zi dr
     = \<lparr> zIndex = (case zi of Some z \<Rightarrow> z | None \<Rightarrow> Fin 0),
         CSSProperties.transform = None, CSSProperties.opacity = Fin 1, clipPath = None,
         cursor = (if dr = Some True then Some ''grabbing'' else None) \<rparr>
   \<and> getTransformStyles (Some no_transform) zi dr = getTransformStyles None zi dr
   \<and> CSSProperties.opacity (getTransformStyles (Some t) zi dr)
       = (case ClipTransform.opacity t of Some v \<Rightarrow> v | None \<Rightarrow> Fin 1)
   \<and> zIndex (getTransformStyles tr (Some z) dr) = z
   \<and> (cursor (getTransformStyles tr zi dr) = Some ''grabbing'' \<longleftrightarrow> dr = Some True)
   \<and> (cursor (getTransformStyles tr zi dr) = None \<longleftrightarrow> dr \<noteq> Some True)"
proof -
  have 1: "getTransformStyles None zi dr
     = \<lparr> zIndex = (case zi of Some z \<Rightarrow> z | None \<Rightarrow> Fin 0),
         CSSProperties.transform = None, CSSProperties.opacity = Fin 1, clipPath = None,
         cursor = (if dr = Some True then Some ''grabbing'' else None) \<rparr>"
    by (simp add: getTransformStyles_def Let_def hasClip_def transforms_def Let_def no_transform_def)
  have 2: "getTransformStyles (Some no_transform) zi dr = getTransformStyles None zi dr"
    by (simp add: getTransformStyles_def)
  have 3: "CSSProperties.opacity (getTransformStyles (Some t) zi dr)
       = (case ClipTransform.opacity t of Some v \<Rightarrow> v | None \<Rightarrow> Fin 1)"
    by (cases "ClipTransform.opacity t") (simp_all add: getTransformStyles_def Let_def)
  have 4: "zIndex (getTransformStyles tr (Some z) dr) = z"
    by (simp add: getTransformStyles_def Let_def)
  have 5: "cursor (getTransformStyles tr zi dr) = Some ''grabbing'' \<longleftrightarrow> dr = Some True"
    by (simp add: getTransformStyles_def Let_def)
  have 6: "cursor (getTransformStyles tr zi dr) = None \<longleftrightarrow> dr \<noteq> Some True"
    by (simp add: getTransformStyles_def Let_def)
  from 1 2 3 4 5 6 show ?thesis by blast
qed

text \<open>The theorem at an absent transform with ordinal 3 while dragging, and at opacity 0.5.\<close>

theorem getTransformStyles_total_witness:
  "getTransformStyles None (Some (Fin 3)) (Some True)
     = \<lparr> zIndex = Fin 3, CSSProperties.transform = None, CSSProperties.opacity = Fin 1,
         clipPath = None, cursor = Some ''grabbing'' \<rparr>
   \<and> CSSProperties.opacity
        (getTransformStyles (Some (no_transform \<lparr> ClipTransform.opacity := Some (Fin 0.5) \<rparr>))
           None None) = Fin 0.5"
  using getTransformStyles_total
    [where zi = "Some (Fin 3)" and dr = "Some True" and tr = None and z = "Fin 3"
       and t = "no_transform \<lparr> ClipTransform.opacity := Some (Fin 0.5) \<rparr>"]
    getTransformStyles_total
    [where zi = None and dr = None and tr = None and z = "Fin 3"
       and t = "no_transform \<lparr> ClipTransform.opacity := Some (Fin 0.5) \<rparr>"]
  by (simp add: no_transform_def)


section \<open>Clock synchronizer\<close>

text \<open>
  Claim C3, as amended. With a media element and a base layer, and \<^verbatim>\<open>isPlaying\<close> false,
  the seek effect sets the position of the element to \<^verbatim>\<open>clipTime\<close> exactly when the
  difference of the live position and \<^verbatim>\<open>clipTime\<close>, rounded to a double, is in absolute
  value more than the double nearest to 0.1 (or is infinite), and does nothing
  otherwise; it does nothing when the position or \<^verbatim>\<open>clipTime\<close> is NaN. The positions
  0.05 and 5.05 cause no seek to 0 and 5, the positions 0.2 and 5.2 cause one, and so
  does the position 1.1 for the target 1 (the rounded difference is above the
  threshold). While \<^verbatim>\<open>isPlaying\<close> is true, and when the element or the base layer is
  missing, the effect does nothing to the element.
\<close>

theorem seekEffect_double_tolerance:
  "seekEffect (Some v) (Some b) False
     = (if num_gt (Math_abs (num_sub (currentTime v) (clipTime b))) (to_double (1 / 10))
        then [SetCurrentTime (clipTime b)] else [])
   \<and> (currentTime v = Fin c \<and> clipTime b = Fin g \<and> to_double (c - g) = Fin d \<longrightarrow>
        (seekEffect (Some v) (Some b) False = [SetCurrentTime (Fin g)]
           \<longleftrightarrow> \<bar>d\<bar> > 3602879701896397 / 36028797018963968)
        \<and> (seekEffect (Some v) (Some b) False = []
           \<longleftrightarrow> \<bar>d\<bar> \<le> 3602879701896397 / 36028797018963968))
   \<and> (currentTime v = Fin c \<and> clipTime b = Fin g
        \<and> (to_double (c - g) = PosInf \<or> to_double (c - g) = NegInf) \<longrightarrow>
        seekEffect (Some v) (Some b) False = [SetCurrentTime (Fin g)])
   \<and> (currentTime v = NaN \<or> clipTime b = NaN \<longrightarrow> seekEffect (Some v) (Some b) False = [])
   \<and> seekEffect vr base True = []
   \<and> seekEffect None base pl = []
   \<and> seekEffect vr None pl = []
   \<and> seekEffect (Some \<lparr> currentTime = to_double 0.05 \<rparr>)
        (Some (mk_layer ''A'' video ''V1'' (Fin 0))) False = []
   \<and> seekEffect (Some \<lparr> currentTime = to_double 0.2 \<rparr>)
        (Some (mk_layer ''A'' video ''V1'' (Fin 0))) False = [SetCurrentTime (Fin 0)]
   \<and> seekEffect (Some \<lparr> currentTime = to_double 5.05 \<rparr>)
        (Some (mk_layer ''A'' video ''V1'' (Fin 5))) False = []
   \<and> seekEffect (Some \<lparr> currentTime = to_double 5.2 \<rparr>)
        (Some (mk_layer ''A'' video ''V1'' (Fin 5))) False = [SetCurrentTime (Fin 5)]
   \<and> seekEffect (Some \<lparr> currentTime = to_double 1.1 \<rparr>)
        (Some (mk_layer ''A'' video ''V1'' (Fin 1))) False = [SetCurrentTime (Fin 1)]"
proof -
  have 1: "seekEffect (Some v) (Some b) False
     = (if num_gt (Math_abs (num_sub (currentTime v) (clipTime b))) (to_double (1 / 10))
        then [SetCurrentTime (clipTime b)] else [])"
    by (simp add: seekEffect_def Let_def)
  have 2: "currentTime v = Fin c \<and> clipTime b = Fin g \<and> to_double (c - g) = Fin d \<longrightarrow>
        (seekEffect (Some v) (Some b) False = [SetCurrentTime (Fin g)]
           \<longleftrightarrow> \<bar>d\<bar> > 3602879701896397 / 36028797018963968)
        \<and> (seekEffect (Some v) (Some b) False = []
           \<longleftrightarrow> \<bar>d\<bar> \<le> 3602879701896397 / 36028797018963968)"
    by (auto simp: 1 num_sub_def double_tenth)
  have 3: "currentTime v = Fin c \<and> clipTime b = Fin g
        \<and> (to_double (c - g) = PosInf \<or> to_double (c - g) = NegInf) \<longrightarrow>
        seekEffect (Some v) (Some b) False = [SetCurrentTime (Fin g)]"
    by (auto simp: 1 num_sub_def double_tenth)
  have 4: "currentTime v = NaN \<or> clipTime b = NaN \<longrightarrow> seekEffect (Some v) (Some b) False = []"
    by (cases "currentTime v"; cases "clipTime b") (auto simp: 1 num_sub_def)
  have 5: "seekEffect vr base True = []"
    by (simp add: seekEffect_def split: option.splits)
  have 6: "seekEffect None base pl = []"
    by (simp add: seekEffect_def)
  have 7: "seekEffect vr None pl = []"
    by (simp add: seekEffect_def split: option.splits)
  have 8: "seekEffect (Some \<lparr> currentTime = to_double 0.05 \<rparr>)
        (Some (mk_layer ''A'' video ''V1'' (Fin 0))) False = []"
    by (simp add: seekEffect_def mk_layer_def num_sub_def double_defs)
  have 9: "seekEffect (Some \<lparr> currentTime = to_double 0.2 \<rparr>)
        (Some (mk_layer ''A'' video ''V1'' (Fin 0))) False = [SetCurrentTime (Fin 0)]"
    by (simp add: seekEffect_def mk_layer_def num_sub_def double_defs)
  have 10: "seekEffect (Some \<lparr> currentTime = to_double 5.05 \<rparr>)
        (Some (mk_layer ''A'' video ''V1'' (Fin 5))) False = []"
    by (simp add: seekEffect_def mk_layer_def num_sub_def double_defs)
  have 11: "seekEffect (Some \<lparr> currentTime = to_double 5.2 \<rparr>)
        (Some (mk_layer ''A'' video ''V1'' (Fin 5))) False = [SetCurrentTime (Fin 5)]"
    by (simp add: seekEffect_def mk_layer_def num_sub_def double_defs)
  have 12: "seekEffect (Some \<lparr> currentTime = to_double 1.1 \<rparr>)
        (Some (mk_layer ''A'' video ''V1'' (Fin 1))) False = [SetCurrentTime (Fin 1)]"
    by (simp add: seekEffect_def mk_layer_def num_sub_def double_defs)
  from 1 2 3 4 5 6 7 8 9 10 11 12 show ?thesis by blast
qed

text \<open>The theorem at a live position of 7 and of 5, for a target of 5.\<close>

theorem seekEffect_double_tolerance_witness:
  "seekEffect (Some \<lparr> currentTime = Fin 7 \<rparr>) (Some (mk_layer ''A'' video ''V1'' (Fin 5))) False
     = [SetCurrentTime (Fin 5)]
   \<and> seekEffect (Some \<lparr> currentTime = Fin 5 \<rparr>) (Some (mk_layer ''A'' video ''V1'' (Fin 5))) False
     = []"
proof -
  have far: "currentTime \<lparr> currentTime = Fin 7 \<rparr> = Fin 7
      \<and> clipTime (mk_layer ''A'' video ''V1'' (Fin 5)) = Fin 5
      \<and> to_double (7 - 5) = Fin 2"
    by (simp add: mk_layer_def double_defs)
  have near: "currentTime \<lparr> currentTime = Fin 5 \<rparr> = Fin 5
      \<and> clipTime (mk_layer ''A'' video ''V1'' (Fin 5)) = Fin 5
      \<and> to_double (5 - 5) = Fin 0"
    by (simp add: mk_layer_def double_defs)
  have d1: "\<bar>2 :: real\<bar> > 3602879701896397 / 36028797018963968" by simp
  have d2: "\<bar>0 :: real\<bar> \<le> 3602879701896397 / 36028797018963968" by simp
  show ?thesis
    using far near d1 d2
      seekEffect_double_tolerance
        [where v = "\<lparr> currentTime = Fin 7 \<rparr>" and b = "mk_layer ''A'' video ''V1'' (Fin 5)"
           and c = 7 and g = 5 and d = 2 and vr = None and base = None and pl = False]
      seekEffect_double_tolerance
        [where v = "\<lparr> currentTime = Fin 5 \<rparr>" and b = "mk_layer ''A'' video ''V1'' (Fin 5)"
           and c = 5 and g = 5 and d = 0 and vr = None and base = None and pl = False]
    by blast
qed

text \<open>
  Claim C3 as it is worded fails: the double nearest to 0.1 is a little more than one
  tenth. With the live position at that double and \<^verbatim>\<open>clipTime\<close> 0, the distance is more
  than 0.1, but \<^verbatim>\<open>Math.abs(0.1 - 0) > 0.1\<close> is false and the effect does not seek.
\<close>

theorem seekEffect_boundary_counterexample:
  "to_double (3602879701896397 / 36028797018963968) = Fin (3602879701896397 / 36028797018963968)
   \<and> 1 / 10 < \<bar>3602879701896397 / 36028797018963968 - (0 :: real)\<bar>
   \<and> seekEffect (Some \<lparr> currentTime = Fin (3602879701896397 / 36028797018963968) \<rparr>)
        (Some (mk_layer ''A'' video ''V1'' (Fin 0))) False = []"
  by (simp add: seekEffect_def mk_layer_def num_sub_def double_defs)

text \<open>
  Claim C4. The base layer is absent exactly when no layer is a video on track V1;
  otherwise it is the first such layer of the input: that layer passes the test and no
  layer before it does, however many pass after it.
\<close>

theorem baseVideoLayer_first:
  "(baseVideoLayer layers = None \<longleftrightarrow> (\<forall>l\<in>set layers. \<not> (trackId l = ''V1'' \<and> type l = video)))
   \<and> (baseVideoLayer layers = Some b \<longleftrightarrow>
        (\<exists>pre post. layers = pre @ b # post \<and> trackId b = ''V1'' \<and> type b = video
           \<and> (\<forall>l\<in>set pre. \<not> (trackId l = ''V1'' \<and> type l = video))))"
proof -
  have 1: "baseVideoLayer layers = None
      \<longleftrightarrow> (\<forall>l\<in>set layers. \<not> (trackId l = ''V1'' \<and> type l = video))"
    by (auto simp: baseVideoLayer_def find_None_iff isBaseVideo_def)
  have 2: "baseVideoLayer layers = Some b \<longleftrightarrow>
        (\<exists>pre post. layers = pre @ b # post \<and> trackId b = ''V1'' \<and> type b = video
           \<and> (\<forall>l\<in>set pre. \<not> (trackId l = ''V1'' \<and> type l = video)))"
    using find_Some_split [of isBaseVideo layers b]
    by (simp add: baseVideoLayer_def isBaseVideo_def)
  from 1 2 show ?thesis by blast
qed

text \<open>The theorem at an image followed by two videos on track V1: the first video is chosen.\<close>

theorem baseVideoLayer_first_witness:
  "baseVideoLayer [mk_layer ''i'' image ''V2'' (Fin 0), mk_layer ''A'' video ''V1'' (Fin 5),
                   mk_layer ''B'' video ''V1'' (Fin 9)]
     = Some (mk_layer ''A'' video ''V1'' (Fin 5))"
proof -
  have "[mk_layer ''i'' image ''V2'' (Fin 0), mk_layer ''A'' video ''V1'' (Fin 5),
         mk_layer ''B'' video ''V1'' (Fin 9)]
        = [mk_layer ''i'' image ''V2'' (Fin 0)] @ mk_layer ''A'' video ''V1'' (Fin 5)
            # [mk_layer ''B'' video ''V1'' (Fin 9)]
       \<and> trackId (mk_layer ''A'' video ''V1'' (Fin 5)) = ''V1''
       \<and> type (mk_layer ''A'' video ''V1'' (Fin 5)) = video
       \<and> (\<forall>l\<in>set [mk_layer ''i'' image ''V2'' (Fin 0)]. \<not> (trackId l = ''V1'' \<and> type l = video))"
    by (simp add: mk_layer_def)
  then show ?thesis
    using baseVideoLayer_first
      [of "[mk_layer ''i'' image ''V2'' (Fin 0), mk_layer ''A'' video ''V1'' (Fin 5),
            mk_layer ''B'' video ''V1'' (Fin 9)]" "mk_layer ''A'' video ''V1'' (Fin 5)"]
    by blast
qed


section \<open>Drag controller\<close>




text \<open>
  Claim C6. A pointer-down on a layer of track V1, or with another button than the
  primary one, changes no state and calls nothing. A primary-button pointer-down on
  any other layer makes that layer the dragged one and calls \<^verbatim>\<open>onLayerSelect\<close> for it
  once (when supplied). Only such an event makes a layer the dragged one. Hence, from
  the idle state and after any events, the dragged layer, if there is one, and the
  layer each request names, have the id of a layer outside track V1 that received
  such a pointer-down.
\<close>

theorem drag_session_overlay_only:
  "(trackId layer = ''V1'' \<longrightarrow> handleLayerMouseDown p st e layer = (st, []))
   \<and> (button e \<noteq> 0 \<longrightarrow> handleLayerMouseDown p st e layer = (st, []))
   \<and> (button e = 0 \<and> trackId layer \<noteq> ''V1'' \<longrightarrow>
        draggingLayer (fst (handleLayerMouseDown p st e layer)) = Some (id' layer)
        \<and> snd (handleLayerMouseDown p st e layer)
            = (if onLayerSelect p then [OnLayerSelect (id' layer)] else []))
   \<and> (draggingLayer (fst (step p st ev)) = Some i \<and> draggingLayer st \<noteq> Some i \<longrightarrow>
        (\<exists>e' l. ev = LayerMouseDown e' l \<and> button e' = 0 \<and> trackId l \<noteq> ''V1'' \<and> id' l = i))
   \<and> (draggingLayer (fst (run p idle evs)) = Some i \<longrightarrow>
        (\<exists>l\<in>set (started evs). id' l = i \<and> trackId l \<noteq> ''V1''))
   \<and> (\<forall>r\<in>set (snd (run p idle evs)).
        \<exists>l\<in>set (started evs). id' l = request_id r \<and> trackId l \<noteq> ''V1'')"
proof -
  have 1: "trackId layer = ''V1'' \<longrightarrow> handleLayerMouseDown p st e layer = (st, [])"
    by (simp add: handleLayerMouseDown_def)
  have 2: "button e \<noteq> 0 \<longrightarrow> handleLayerMouseDown p st e layer = (st, [])"
    by (simp add: handleLayerMouseDown_def)
  have 3: "button e = 0 \<and> trackId layer \<noteq> ''V1'' \<longrightarrow>
        draggingLayer (fst (handleLayerMouseDown p st e layer)) = Some (id' layer)
        \<and> snd (handleLayerMouseDown p st e layer)
            = (if onLayerSelect p then [OnLayerSelect (id' layer)] else [])"
    by (simp add: handleLayerMouseDown_def)
  have 4: "draggingLayer (fst (step p st ev)) = Some i \<and> draggingLayer st \<noteq> Some i \<longrightarrow>
        (\<exists>e' l. ev = LayerMouseDown e' l \<and> button e' = 0 \<and> trackId l \<noteq> ''V1'' \<and> id' l = i)"
    by (cases ev)
       (auto simp: step_def handleLayerMouseDown_def handleMouseUp_def dragEffect_def
             split: if_splits option.splits)
  have i: "\<forall>j. draggingLayer idle = Some j \<longrightarrow> (\<exists>l\<in>{}. id' l = j)"
    by (simp add: idle_def)
  note inv = run_session_source [OF i, of p evs]
  have 5: "draggingLayer (fst (run p idle evs)) = Some i \<longrightarrow>
        (\<exists>l\<in>set (started evs). id' l = i \<and> trackId l \<noteq> ''V1'')"
    using inv started_overlay by fastforce
  have 6: "\<forall>r\<in>set (snd (run p idle evs)).
        \<exists>l\<in>set (started evs). id' l = request_id r \<and> trackId l \<noteq> ''V1''"
    using inv started_overlay by fastforce
  from 1 2 3 4 5 6 show ?thesis by blast
qed

text \<open>
  The theorem for a pointer-down on a video of track V1, then a pointer-down on an
  image of track V2, a move and a pointer-up: the requests are one select and one
  move, both of the image.
\<close>

theorem drag_session_overlay_only_witness:
  "handleLayerMouseDown both_callbacks idle (ev_at 0 100 100) (mk_layer ''A'' video ''V1'' (Fin 5))
     = (idle, [])
   \<and> snd (handleLayerMouseDown both_callbacks idle (ev_at 0 100 100)
            (mk_layer ''B'' image ''V2'' (Fin 0))) = [OnLayerSelect ''B'']
   \<and> snd (run both_callbacks idle
         [LayerMouseDown (ev_at 0 50 50) (mk_layer ''A'' video ''V1'' (Fin 5)),
          LayerMouseDown (ev_at 0 100 100) (mk_layer ''B'' image ''V2'' (Fin 0)),
          WindowMouseMove (ev_at 0 120 115), WindowMouseUp (ev_at 0 120 115)])
       = [OnLayerSelect ''B'', OnLayerMove ''B'' (Fin 20) (Fin 15)]"
proof -
  have a: "trackId (mk_layer ''A'' video ''V1'' (Fin 5)) = ''V1''"
    by (simp add: mk_layer_def)
  have b: "id' (mk_layer ''B'' image ''V2'' (Fin 0)) = ''B'' \<and> onLayerSelect both_callbacks"
    by (simp add: mk_layer_def both_callbacks_def)
  have r: "snd (run both_callbacks idle
         [LayerMouseDown (ev_at 0 50 50) (mk_layer ''A'' video ''V1'' (Fin 5)),
          LayerMouseDown (ev_at 0 100 100) (mk_layer ''B'' image ''V2'' (Fin 0)),
          WindowMouseMove (ev_at 0 120 115), WindowMouseUp (ev_at 0 120 115)])
       = [OnLayerSelect ''B'', OnLayerMove ''B'' (Fin 20) (Fin 15)]"
    by (simp add: step_def handleLayerMouseDown_def handleMouseMove_def handleMouseUp_def
          dragEffect_def session_active_def idle_def both_callbacks_def mk_layer_def ev_at_def
          num_sub_def double_defs)
  show ?thesis
    using a b ex_B r
      drag_session_overlay_only
        [where layer = "mk_layer ''A'' video ''V1'' (Fin 5)" and p = both_callbacks
           and st = idle and e = "ev_at 0 100 100" and ev = "WindowMouseUp (ev_at 0 120 115)"
           and i = "''B''" and evs = "[]"]
      drag_session_overlay_only
        [where layer = "mk_layer ''B'' image ''V2'' (Fin 0)" and p = both_callbacks
           and st = idle and e = "ev_at 0 100 100" and ev = "WindowMouseUp (ev_at 0 120 115)"
           and i = "''B''" and evs = "[]"]
    by simp
qed





section \<open>Rendered video elements\<close>

text \<open>
  Claim C10, as amended. An element is rendered unmuted exactly when its layer is a
  video on track V1, so the unmuted elements are as many as the layers that qualify as
  base. The base layer is rendered unmuted. When at most one layer qualifies, at most
  one element is unmuted, and every layer of the set other than the base layer is
  rendered muted or without a video element.
\<close>

theorem unmuted_iff_base_track_video:
  "unmuted (renderLayer dr layer i) = (trackId layer = ''V1'' \<and> type layer = video)
   \<and> length (filter unmuted (renderLayers c dr layers))
       = length (filter (\<lambda>l. trackId l = ''V1'' \<and> type l = video) layers)
   \<and> (baseVideoLayer layers = Some layer \<longrightarrow> unmuted (renderLayer dr layer i))
   \<and> (length (filter (\<lambda>l. trackId l = ''V1'' \<and> type l = video) layers) \<le> 1 \<longrightarrow>
        length (filter unmuted (renderLayers c dr layers)) \<le> 1
        \<and> (layer \<in> set layers \<and> baseVideoLayer layers \<noteq> Some layer
             \<longrightarrow> \<not> unmuted (renderLayer dr layer i)))"
proof -
  have p: "(\<lambda>l. trackId l = ''V1'' \<and> type l = video) = isBaseVideo"
    by (rule ext) (simp add: isBaseVideo_def)
  have 1: "unmuted (renderLayer dr layer i) = (trackId layer = ''V1'' \<and> type layer = video)"
    by (simp add: unmuted_renderLayer isBaseVideo_def)
  have 2: "length (filter unmuted (renderLayers c dr layers)) = length (filter isBaseVideo layers)"
    by (simp only: renderLayers_def count_unmuted_enumerate count_sortedLayers)
  have 3: "baseVideoLayer layers = Some layer \<longrightarrow> unmuted (renderLayer dr layer i)"
    by (auto simp: baseVideoLayer_def unmuted_renderLayer dest: find_Some_P)
  have 4: "length (filter isBaseVideo layers) \<le> 1 \<longrightarrow>
        (layer \<in> set layers \<and> baseVideoLayer layers \<noteq> Some layer
             \<longrightarrow> \<not> unmuted (renderLayer dr layer i))"
    using find_unique [of isBaseVideo layers layer]
    by (auto simp: baseVideoLayer_def unmuted_renderLayer)
  from 1 2 3 4 show ?thesis unfolding p by simp
qed

text \<open>The theorem for a video on track V2 and a video on track V1.\<close>

theorem unmuted_iff_base_track_video_witness:
  "length (filter unmuted (renderLayers localeCompare_root None
      [mk_layer ''B'' video ''V2'' (Fin 0), mk_layer ''A'' video ''V1'' (Fin 5)])) \<le> 1
   \<and> \<not> unmuted (renderLayer None (mk_layer ''B'' video ''V2'' (Fin 0)) 1)
   \<and> unmuted (renderLayer None (mk_layer ''A'' video ''V1'' (Fin 5)) 0)"
proof -
  let ?ls = "[mk_layer ''B'' video ''V2'' (Fin 0), mk_layer ''A'' video ''V1'' (Fin 5)]"
  have one: "length (filter (\<lambda>l. trackId l = ''V1'' \<and> type l = video) ?ls) \<le> 1"
    by (simp add: mk_layer_def)
  have base: "baseVideoLayer ?ls = Some (mk_layer ''A'' video ''V1'' (Fin 5))"
    by (simp add: baseVideoLayer_def isBaseVideo_def mk_layer_def)
  have other: "mk_layer ''B'' video ''V2'' (Fin 0) \<in> set ?ls
      \<and> baseVideoLayer ?ls \<noteq> Some (mk_layer ''B'' video ''V2'' (Fin 0))"
    by (simp add: baseVideoLayer_def isBaseVideo_def mk_layer_def)
  show ?thesis
    using one base other
      unmuted_iff_base_track_video
        [where layers = ?ls and layer = "mk_layer ''B'' video ''V2'' (Fin 0)" and dr = None
           and i = 1 and c = localeCompare_root]
      unmuted_iff_base_track_video
        [where layers = ?ls and layer = "mk_layer ''A'' video ''V1'' (Fin 5)" and dr = None
           and i = 0 and c = localeCompare_root]
    by blast
qed

text \<open>
  Claim C10 as it is worded fails: of two videos on track V1 the first is the base
  layer, the second is not, and both are rendered unmuted.
\<close>

theorem two_base_track_videos_counterexample:
  "baseVideoLayer [mk_layer ''A'' video ''V1'' (Fin 5), mk_layer ''B'' video ''V1'' (Fin 9)]
     = Some (mk_layer ''A'' video ''V1'' (Fin 5))
   \<and> mk_layer ''B'' video ''V1'' (Fin 9) \<noteq> mk_layer ''A'' video ''V1'' (Fin 5)
   \<and> unmuted (renderLayer None (mk_layer ''B'' video ''V1'' (Fin 9)) 1)
   \<and> length (filter unmuted (renderLayers localeCompare_root None
        [mk_layer ''A'' video ''V1'' (Fin 5), mk_layer ''B'' video ''V1'' (Fin 9)])) = 2"
  by (simp add: baseVideoLayer_def isBaseVideo_def mk_layer_def renderLayer_def Let_def
        renderLayers_def sortedLayers_def root_defs)

end
